theory Spec2Isabelle
  imports Main
begin

section \<open>check_trex: a Nagios check for the T-Rex miner\<close>

text \<open>
  A shallow embedding of \<^verbatim>\<open>check_trex.py\<close>. The script asks the miner's HTTP API for
  its summary, turns the JSON answer into metrics (\<^verbatim>\<open>Trex.probe\<close>), evaluates each metric
  in the context of its name (\<^verbatim>\<open>BelowThresholdContext\<close>, \<^verbatim>\<open>BooleanContext\<close>, the
  library's \<^verbatim>\<open>ScalarContext\<close>) and exits with the code of the worst state.

  Exceptions are values of the type \<open>error\<close>; a function that can raise returns
  \<open>error + 'a\<close>, with \<open>Inl\<close> for the exception.
\<close>

subsection \<open>Python values\<close>

datatype error =
    ConnectionError string
  | Timeout string
  | HTTPError string
  | JSONDecodeError string
  | TypeError string
  | KeyError string
  | NameError string
  | ValueError string

text \<open>\<^verbatim>\<open>str(err)\<close>: the message the exception carries.\<close>

fun str_error :: "error \<Rightarrow> string" where
  "str_error (ConnectionError s) = s"
| "str_error (Timeout s) = s"
| "str_error (HTTPError s) = s"
| "str_error (JSONDecodeError s) = s"
| "str_error (TypeError s) = s"
| "str_error (KeyError s) = s"
| "str_error (NameError s) = s"
| "str_error (ValueError s) = s"

text \<open>
  A scalar of the JSON answer, as \<^verbatim>\<open>r.json()\<close> hands it over, and \<^verbatim>\<open>bool(x)\<close> on it.
\<close>

datatype json = JNull | JBool bool | JInt int | JStr string

fun py_bool :: "json \<Rightarrow> bool" where
  "py_bool JNull = False"
| "py_bool (JBool b) = b"
| "py_bool (JInt n) = (n \<noteq> 0)"
| "py_bool (JStr s) = (s \<noteq> [])"

text \<open>
  The value of a metric: a number (hashrate, uptime, temperatures; integers, as the miner
  reports them) or the result of \<^verbatim>\<open>bool(...)\<close> (success, paused).
\<close>

datatype pyval = PInt int | PBool bool

text \<open>In a comparison \<^verbatim>\<open>True\<close> counts as 1 and \<^verbatim>\<open>False\<close> as 0.\<close>

fun py_int :: "pyval \<Rightarrow> int" where
  "py_int (PInt n) = n"
| "py_int (PBool b) = (if b then 1 else 0)"

text \<open>\<^verbatim>\<open>str\<close> of a number, of a boolean and of an optional number, as an f-string prints them.\<close>

fun str_nat :: "nat \<Rightarrow> string" where
  "str_nat n =
     (if n < 10 then [''0123456789'' ! n]
      else str_nat (n div 10) @ [''0123456789'' ! (n mod 10)])"

definition str_int :: "int \<Rightarrow> string" where
  "str_int i = (if i < 0 then ''-'' @ str_nat (nat (- i)) else str_nat (nat i))"

definition str_bool :: "bool \<Rightarrow> string" where
  "str_bool b = (if b then ''True'' else ''False'')"

fun str_pyval :: "pyval \<Rightarrow> string" where
  "str_pyval (PInt n) = str_int n"
| "str_pyval (PBool b) = str_bool b"

fun str_opt_int :: "int option \<Rightarrow> string" where
  "str_opt_int None = ''None''"
| "str_opt_int (Some n) = str_int n"


subsection \<open>States, metrics and results\<close>

text \<open>
  \<^verbatim>\<open>nagiosplugin.state\<close>: the four service states, each with its Nagios exit code and its
  text (\<^verbatim>\<open>str(state)\<close>). Python compares states by their codes.
\<close>

datatype state = Ok | Warn | Critical | Unknown

fun code :: "state \<Rightarrow> nat" where
  "code Ok = 0"
| "code Warn = 1"
| "code Critical = 2"
| "code Unknown = 3"


text \<open>\<^verbatim>\<open>Metric(name, value, context=...)\<close> and \<^verbatim>\<open>Result(state, hint, metric)\<close>.\<close>

record metric =
  metric_name :: string
  metric_value :: pyval
  metric_context :: string

definition Metric :: "string \<Rightarrow> pyval \<Rightarrow> string \<Rightarrow> metric" where
  "Metric n v c = \<lparr>metric_name = n, metric_value = v, metric_context = c\<rparr>"

record result =
  state :: state
  hint :: "string option"
  metric :: metric

definition Result :: "state \<Rightarrow> string option \<Rightarrow> metric \<Rightarrow> result" where
  "Result s h m = \<lparr>state = s, hint = h, metric = m\<rparr>"

subsection \<open>The contexts of the script\<close>

text \<open>
  \<^verbatim>\<open>Range\<close>, \<^verbatim>\<open>ScalarContext\<close>, \<^verbatim>\<open>Check\<close> and the states belong to the nagiosplugin
  library, which the script imports; its code is not among the script's sources. The
  definitions below that stand for library code say so, and follow the library's
  documented behaviour.

  A \<^verbatim>\<open>Range\<close> is a Nagios threshold range with a start and an end, both inside the range.
  \<open>range_end = None\<close> is an end at infinity.
\<close>

record range =
  range_start :: int
  range_end :: "int option"

text \<open>
  The contexts a \<^verbatim>\<open>Check\<close> holds, each under its name.
  \<^verbatim>\<open>BelowThresholdContext(name, warning=None, critical=None)\<close> and
  \<^verbatim>\<open>BooleanContext(name, expected=True, warning=False, critical=False)\<close> are classes of the
  script; \<^verbatim>\<open>ScalarContext(name, warning, critical)\<close> is the library's and keeps its two
  thresholds as ranges.
\<close>

datatype nagios_context =
    BelowThresholdContext string "int option" "int option"
  | BooleanContext string bool bool bool
  | ScalarContext string range range

fun context_name :: "nagios_context \<Rightarrow> string" where
  "context_name (BelowThresholdContext n w c) = n"
| "context_name (BooleanContext n e w c) = n"
| "context_name (ScalarContext n w c) = n"

text \<open>
  \<^verbatim>\<open>self.critical and metric.value <= self.critical\<close>: the threshold counts only when
  it is truthy, that is when it is neither \<^verbatim>\<open>None\<close> nor 0.
\<close>

fun below :: "int option \<Rightarrow> int \<Rightarrow> bool" where
  "below None v = False"
| "below (Some t) v = (t \<noteq> 0 \<and> v \<le> t)"

text \<open>
  \<^verbatim>\<open>metric.value is self.expected\<close>, with a boolean expected: the same object only when
  the value is that very boolean (the number 1 is not \<^verbatim>\<open>True\<close>).
\<close>

fun py_is :: "pyval \<Rightarrow> bool \<Rightarrow> bool" where
  "py_is (PBool b) e = (b = e)"
| "py_is (PInt n) e = False"

text \<open>
  The library's \<^verbatim>\<open>Range.match\<close> (a value matches when it lies inside the range, both
  ends included) and \<^verbatim>\<open>Range.violation\<close>, the hint of a value outside.
\<close>

definition match :: "range \<Rightarrow> int \<Rightarrow> bool" where
  "match r v =
     (if v < range_start r then False
      else case range_end r of None \<Rightarrow> True | Some e \<Rightarrow> \<not> e < v)"

definition violation :: "range \<Rightarrow> string" where
  "violation r =
     ''outside range '' @ str_int (range_start r) @ '':'' @
       (case range_end r of None \<Rightarrow> [] | Some e \<Rightarrow> str_int e)"

text \<open>
  \<^verbatim>\<open>context.evaluate(metric, resource)\<close>, one equation per class:
  \<^verbatim>\<open>BelowThresholdContext.evaluate\<close> and \<^verbatim>\<open>BooleanContext.evaluate\<close> of the script, and the
  library's \<^verbatim>\<open>ScalarContext.evaluate\<close>.
\<close>

fun evaluate :: "nagios_context \<Rightarrow> metric \<Rightarrow> result" where
  "evaluate (BelowThresholdContext n w c) m =
     (if below c (py_int (metric_value m)) then
        Result Critical (Some (str_pyval (metric_value m) @ ''<='' @ str_opt_int c)) m
      else if below w (py_int (metric_value m)) then
        Result Warn (Some (str_pyval (metric_value m) @ ''<='' @ str_opt_int w)) m
      else Result Ok None m)"
| "evaluate (BooleanContext n e w c) m =
     (if \<not> py_is (metric_value m) e then
        Result (if c then Critical else if w then Warn else Ok)
          (Some (metric_name m @ '' is not '' @ str_bool e)) m
      else Result Ok None m)"
| "evaluate (ScalarContext n w c) m =
     (if \<not> match c (py_int (metric_value m)) then Result Critical (Some (violation c)) m
      else if \<not> match w (py_int (metric_value m)) then Result Warn (Some (violation w)) m
      else Result Ok None m)"

subsection \<open>The probe\<close>

text \<open>
  The parsed answer of \<^verbatim>\<open>/summary\<close>. Every key may be missing (\<open>None\<close>); the numbers are
  integers, \<^verbatim>\<open>success\<close> and \<^verbatim>\<open>paused\<close> are whatever scalar the miner sends, since the
  probe passes them through \<^verbatim>\<open>bool\<close>.
\<close>

record gpu =
  name :: "string option"
  gpu_id :: "int option"
  temperature :: "int option"
  memory_temperature :: "int option"

record snapshot =
  hashrate :: "int option"
  success :: "json option"
  paused :: "json option"
  uptime :: "int option"
  gpus :: "gpu list option"

text \<open>
  What the \<^verbatim>\<open>requests\<close> calls of the probe give: \<^verbatim>\<open>requests.get\<close> raises or returns a
  response; on a response \<^verbatim>\<open>raise_for_status()\<close> raises or not, and \<^verbatim>\<open>json()\<close> raises or
  returns the parsed body. The network is a parameter of the model: a function from the
  requested URL and the timeout to what \<^verbatim>\<open>requests.get\<close> does.
\<close>

record response =
  raise_for_status :: "error option"
  json_body :: "error + snapshot"

type_synonym network = "string \<Rightarrow> int \<Rightarrow> error + response"

text \<open>
  The body of the loop over \<^verbatim>\<open>gpus\<close>: the metrics of one record, appended to those
  collected so far. The name and the id are read first (a \<^verbatim>\<open>KeyError\<close> when one is
  missing). With a \<^verbatim>\<open>memory_temperature\<close> the value is stored in \<^verbatim>\<open>temperature\<close> and the
  next statement reads the variable \<^verbatim>\<open>memory_temperature\<close>, which no statement of the
  script assigns: a \<^verbatim>\<open>NameError\<close>.
\<close>

definition probe_gpu :: "gpu \<Rightarrow> metric list \<Rightarrow> error + metric list" where
  "probe_gpu g metrics =
     (case name g of
        None \<Rightarrow> Inl (KeyError ''name'')
      | Some nm \<Rightarrow>
          (case gpu_id g of
             None \<Rightarrow> Inl (KeyError ''gpu_id'')
           | Some i \<Rightarrow>
               (let metrics1 =
                      (case temperature g of
                         None \<Rightarrow> metrics
                       | Some t \<Rightarrow> metrics @ [Metric ''temperature'' (PInt t) ''temperature''])
                in case memory_temperature g of
                     None \<Rightarrow> Inr metrics1
                   | Some t \<Rightarrow> Inl (NameError ''name memory_temperature is not defined''))))"

fun probe_gpus :: "gpu list \<Rightarrow> metric list \<Rightarrow> error + metric list" where
  "probe_gpus [] metrics = Inr metrics"
| "probe_gpus (g # gs) metrics =
     (case probe_gpu g metrics of
        Inl e \<Rightarrow> Inl e
      | Inr metrics' \<Rightarrow> probe_gpus gs metrics')"

text \<open>
  The probe after \<^verbatim>\<open>data = r.json()\<close>, in two parts. First the four \<^verbatim>\<open>if\<close> statements
  on \<^verbatim>\<open>hashrate\<close>, \<^verbatim>\<open>success\<close>, \<^verbatim>\<open>paused\<close> and \<^verbatim>\<open>uptime\<close>, each appending one
  metric when its key is there.
\<close>

definition scalar_metrics :: "snapshot \<Rightarrow> metric list" where
  "scalar_metrics data =
     (let metrics0 = [];
          metrics1 =
            (case hashrate data of
               None \<Rightarrow> metrics0
             | Some h \<Rightarrow> metrics0 @ [Metric ''hashrate'' (PInt h) ''hashrate'']);
          metrics2 =
            (case success data of
               None \<Rightarrow> metrics1
             | Some s \<Rightarrow> metrics1 @ [Metric ''success'' (PBool (py_bool s)) ''success'']);
          metrics3 =
            (case paused data of
               None \<Rightarrow> metrics2
             | Some p \<Rightarrow> metrics2 @ [Metric ''paused'' (PBool (py_bool p)) ''paused''])
      in case uptime data of
           None \<Rightarrow> metrics3
         | Some u \<Rightarrow> metrics3 @ [Metric ''uptime'' (PInt u) ''uptime''])"

text \<open>
  Then the loop \<^verbatim>\<open>for gpu in data.get("gpus")\<close>: \<^verbatim>\<open>data.get("gpus")\<close> is \<^verbatim>\<open>None\<close> when
  the key is missing, and the \<^verbatim>\<open>for\<close> statement raises a \<^verbatim>\<open>TypeError\<close> on it.
\<close>

definition probe_data :: "snapshot \<Rightarrow> error + metric list" where
  "probe_data data =
     (case gpus data of
        None \<Rightarrow> Inl (TypeError ''NoneType object is not iterable'')
      | Some gs \<Rightarrow> probe_gpus gs (scalar_metrics data))"

text \<open>\<^verbatim>\<open>Trex(url, timeout).probe()\<close>.\<close>

definition probe :: "network \<Rightarrow> string \<Rightarrow> int \<Rightarrow> error + metric list" where
  "probe net url timeout =
     (case net (url @ ''/summary'') timeout of
        Inl e \<Rightarrow> Inl e
      | Inr r \<Rightarrow>
          (case raise_for_status r of
             Some e \<Rightarrow> Inl e
           | None \<Rightarrow>
               (case json_body r of
                  Inl e \<Rightarrow> Inl e
                | Inr data \<Rightarrow> probe_data data)))"

subsection \<open>The check\<close>

text \<open>
  Library code: \<^verbatim>\<open>Range(spec)\<close> for a number, as \<^verbatim>\<open>ScalarContext.__init__\<close> calls it on its
  two thresholds. The constructor starts with \<^verbatim>\<open>spec = spec or ''\<close>, so 0 is the empty
  specification (from 0 to infinity); any other number \<open>n\<close> is the range from 0 to \<open>n\<close>,
  and a start greater than the end is refused with a \<^verbatim>\<open>ValueError\<close>.
\<close>

definition Range :: "int \<Rightarrow> error + range" where
  "Range spec =
     (if spec = 0 then Inr \<lparr>range_start = 0, range_end = None\<rparr>
      else if spec < 0 then
        Inl (ValueError (''start 0 must not be greater than end '' @ str_int spec))
      else Inr \<lparr>range_start = 0, range_end = Some spec\<rparr>)"

definition new_ScalarContext :: "string \<Rightarrow> int \<Rightarrow> int \<Rightarrow> error + nagios_context" where
  "new_ScalarContext n warning critical =
     (case Range warning of
        Inl e \<Rightarrow> Inl e
      | Inr w \<Rightarrow>
          (case Range critical of
             Inl e \<Rightarrow> Inl e
           | Inr c \<Rightarrow> Inr (ScalarContext n w c)))"

text \<open>The command line, as \<^verbatim>\<open>parse_arguments\<close> returns it (the log level left out).\<close>

record args =
  show_version :: bool
  url :: string
  timeout :: int
  hashrate_warning :: "int option"
  hashrate_critical :: "int option"
  uptime_warning :: "int option"
  uptime_critical :: "int option"
  paused_warning :: bool
  paused_critical :: bool
  temperature_warning :: int
  temperature_critical :: int
  memory_temperature_warning :: int
  memory_temperature_critical :: int

text \<open>
  The contexts \<^verbatim>\<open>main\<close> hands to \<^verbatim>\<open>Check\<close>, in the order of the call. Only the two
  \<^verbatim>\<open>ScalarContext\<close>s can raise while they are built.
\<close>

definition contexts :: "args \<Rightarrow> error + nagios_context list" where
  "contexts a =
     (case new_ScalarContext ''temperature'' (temperature_warning a) (temperature_critical a) of
        Inl e \<Rightarrow> Inl e
      | Inr t \<Rightarrow>
          (case new_ScalarContext ''memory_temperature''
                  (memory_temperature_warning a) (memory_temperature_critical a) of
             Inl e \<Rightarrow> Inl e
           | Inr mt \<Rightarrow>
               Inr [BooleanContext ''success'' True False False,
                    BooleanContext ''paused'' True (paused_warning a) (paused_critical a),
                    BelowThresholdContext ''hashrate'' (hashrate_warning a) (hashrate_critical a),
                    BelowThresholdContext ''uptime'' (uptime_warning a) (uptime_critical a),
                    t, mt]))"

text \<open>
  Modelled from the spec: the aggregator is the library's \<^verbatim>\<open>Check\<close>, whose code is not
  among the sources. It runs the probe once and evaluates each metric in the context that
  has the name the metric asks for (\<^verbatim>\<open>self.contexts[metric.context]\<close>, a \<^verbatim>\<open>KeyError\<close>
  when there is none).
\<close>

definition lookup_context :: "nagios_context list \<Rightarrow> string \<Rightarrow> nagios_context option" where
  "lookup_context ctxs n = map_of (map (\<lambda>c. (context_name c, c)) ctxs) n"

fun evaluate_metrics :: "nagios_context list \<Rightarrow> metric list \<Rightarrow> error + result list" where
  "evaluate_metrics ctxs [] = Inr []"
| "evaluate_metrics ctxs (m # ms) =
     (case lookup_context ctxs (metric_context m) of
        None \<Rightarrow> Inl (KeyError ''cannot find context'')
      | Some c \<Rightarrow>
          (case evaluate_metrics ctxs ms of
             Inl e \<Rightarrow> Inl e
           | Inr rs \<Rightarrow> Inr (evaluate c m # rs)))"

text \<open>
  Modelled from the spec: the overall severity is the maximum (worst) severity among all
  individual results, \<^verbatim>\<open>max\<close> over the states compared by their codes. The spec does
  not say what a check without any result reports; the library reports \<^verbatim>\<open>Unknown\<close>.
\<close>

definition worst :: "state \<Rightarrow> state \<Rightarrow> state" where
  "worst a b = (if code a < code b then b else a)"

fun most_significant_state :: "result list \<Rightarrow> state option" where
  "most_significant_state [] = None"
| "most_significant_state (r # rs) = Some (fold (\<lambda>r s. worst s (state r)) rs (state r))"

definition check_state :: "result list \<Rightarrow> state" where
  "check_state rs = (case most_significant_state rs of None \<Rightarrow> Unknown | Some s \<Rightarrow> s)"




text \<open>
  What a run of the script ends with: the version printed (and a normal return), the
  message of the \<^verbatim>\<open>except\<close> clause of \<^verbatim>\<open>main\<close> printed and \<^verbatim>\<open>sys.exit\<close> with a code, or
  the report of the library for a state and its results.
\<close>

datatype outcome =
    ShowedVersion
  | Failed string nat
  | Reported state "result list"

text \<open>
  \<^verbatim>\<open>check.main()\<close>: any exception of the probe or of an evaluation passes through to the
  caller.
\<close>

definition check_main ::
  "nagios_context list \<Rightarrow> network \<Rightarrow> string \<Rightarrow> int \<Rightarrow> error + state \<times> result list" where
  "check_main ctxs net u t =
     (case probe net u t of
        Inl e \<Rightarrow> Inl e
      | Inr metrics \<Rightarrow>
          (case evaluate_metrics ctxs metrics of
             Inl e \<Rightarrow> Inl e
           | Inr rs \<Rightarrow> Inr (check_state rs, rs)))"

text \<open>\<^verbatim>\<open>main\<close> of the script, on the parsed command line and the network.\<close>

definition main :: "args \<Rightarrow> network \<Rightarrow> outcome" where
  "main a net =
     (if show_version a then ShowedVersion
      else
        (case contexts a of
           Inl err \<Rightarrow> Failed (''Failed to execute check: '' @ str_error err) (code Unknown)
         | Inr ctxs \<Rightarrow>
             (case check_main ctxs net (url a) (timeout a) of
                Inl err \<Rightarrow> Failed (''Failed to execute check: '' @ str_error err) (code Unknown)
              | Inr (st, rs) \<Rightarrow> Reported st rs)))"

text \<open>The exit code of the process, and the summary of a report that is not \<^verbatim>\<open>Ok\<close>.\<close>

fun exitcode :: "outcome \<Rightarrow> nat" where
  "exitcode ShowedVersion = 0"
| "exitcode (Failed msg c) = c"
| "exitcode (Reported st rs) = code st"


subsection \<open>Reference definitions and sample inputs\<close>

text \<open>
  The below-threshold check as the specification words it: critical if a critical bound
  is set and the value is at most that bound, else warning if a warning bound is set and
  the value is at most that bound, else ok. It is compared with
  \<^verbatim>\<open>BelowThresholdContext.evaluate\<close> below.
\<close>

definition set_and_le :: "int option \<Rightarrow> int \<Rightarrow> bool" where
  "set_and_le bound v = (case bound of None \<Rightarrow> False | Some t \<Rightarrow> v \<le> t)"

definition below_reference :: "int option \<Rightarrow> int option \<Rightarrow> int \<Rightarrow> state" where
  "below_reference warning critical v =
     (if set_and_le critical v then Critical
      else if set_and_le warning v then Warn
      else Ok)"

text \<open>
  The names of the metrics the probe can append, and the metrics of the records of
  \<^verbatim>\<open>gpus\<close> when every record passes the loop (one metric for each temperature).
\<close>

definition probed :: "string set" where
  "probed = {''hashrate'', ''success'', ''paused'', ''uptime'', ''temperature''}"

fun gpu_metrics :: "gpu list \<Rightarrow> metric list" where
  "gpu_metrics [] = []"
| "gpu_metrics (g # gs) =
     (case temperature g of
        None \<Rightarrow> gpu_metrics gs
      | Some t \<Rightarrow> Metric ''temperature'' (PInt t) ''temperature'' # gpu_metrics gs)"

text \<open>
  The command line without any option, with the defaults of \<^verbatim>\<open>parse_arguments\<close>.
\<close>

definition default_args :: args where
  "default_args =
     \<lparr>show_version = False, url = ''http://127.0.0.1:4067'', timeout = 3,
      hashrate_warning = None, hashrate_critical = None,
      uptime_warning = None, uptime_critical = None,
      paused_warning = False, paused_critical = False,
      temperature_warning = 70, temperature_critical = 90,
      memory_temperature_warning = 90, memory_temperature_critical = 110\<rparr>"

text \<open>
  Sample inputs: a miner that answers with a given summary; a miner that cannot be
  reached; the summary with an empty list of GPUs and nothing else; a GPU with a
  temperature, and one that also reports the temperature of its memory.
\<close>

definition serving :: "snapshot \<Rightarrow> network" where
  "serving data = (\<lambda>u t. Inr \<lparr>raise_for_status = None, json_body = Inr data\<rparr>)"


definition no_metrics :: snapshot where
  "no_metrics = \<lparr>hashrate = None, success = None, paused = None, uptime = None, gpus = Some []\<rparr>"

definition one_gpu :: "int \<Rightarrow> gpu" where
  "one_gpu t = \<lparr>name = Some ''GPU'', gpu_id = Some 0, temperature = Some t, memory_temperature = None\<rparr>"

definition memory_gpu :: gpu where
  "memory_gpu = \<lparr>name = Some ''GPU'', gpu_id = Some 0, temperature = Some 60, memory_temperature = Some 80\<rparr>"

section \<open>Properties\<close>

subsection \<open>Auxiliary facts\<close>

lemmas run_defs =
  main_def default_args_def contexts_def new_ScalarContext_def Range_def check_main_def
  probe_def serving_def no_metrics_def probe_data_def scalar_metrics_def lookup_context_def
  check_state_def worst_def Result_def Metric_def one_gpu_def probe_gpu_def match_def


lemma metric_evaluate: "metric (evaluate c m) = m"
  by (cases c) (simp_all add: Result_def)

lemma probe_gpu_acc:
  "probe_gpu g acc = (case probe_gpu g [] of Inl e \<Rightarrow> Inl e | Inr ms \<Rightarrow> Inr (acc @ ms))"
  by (simp add: probe_gpu_def Let_def split: option.splits)

lemma probe_gpus_acc:
  "probe_gpus gs acc = (case probe_gpus gs [] of Inl e \<Rightarrow> Inl e | Inr ms \<Rightarrow> Inr (acc @ ms))"
proof (induction gs arbitrary: acc)
  case Nil
  show ?case by simp
next
  case (Cons g gs)
  show ?case
  proof (cases "probe_gpu g []")
    case (Inl e)
    then show ?thesis using probe_gpu_acc [of g acc] by simp
  next
    case (Inr ms)
    then have "probe_gpu g acc = Inr (acc @ ms)" using probe_gpu_acc [of g acc] by simp
    then show ?thesis
      using Inr Cons.IH [of "acc @ ms"] Cons.IH [of ms]
      by (simp split: sum.splits)
  qed
qed

lemma probe_gpu_contexts:
  "probe_gpu g [] = Inr ms \<Longrightarrow> m \<in> set ms \<Longrightarrow> metric_context m = ''temperature'' \<and> metric_name m = ''temperature''"
  by (auto simp: probe_gpu_def Let_def Metric_def split: option.splits)

lemma probe_gpus_contexts:
  "probe_gpus gs [] = Inr ms \<Longrightarrow> m \<in> set ms \<Longrightarrow> metric_context m = ''temperature'' \<and> metric_name m = ''temperature''"
proof (induction gs arbitrary: ms)
  case Nil
  then show ?case by simp
next
  case (Cons g gs)
  from Cons.prems(1) obtain ms1 where g: "probe_gpu g [] = Inr ms1"
    by (auto split: sum.splits)
  with Cons.prems(1) have "probe_gpus gs ms1 = Inr ms" by simp
  then obtain ms2 where gs: "probe_gpus gs [] = Inr ms2" and ms: "ms = ms1 @ ms2"
    using probe_gpus_acc [of gs ms1] by (auto split: sum.splits)
  from Cons.prems(2) ms have "m \<in> set ms1 \<or> m \<in> set ms2" by simp
  then show ?case
    using probe_gpu_contexts [OF g] Cons.IH [OF gs] by blast
qed

lemma probe_gpu_memory_temperature:
  "memory_temperature g = Some v \<Longrightarrow> \<exists>e. probe_gpu g acc = Inl e"
  by (simp add: probe_gpu_def Let_def split: option.splits)

lemma probe_gpu_named:
  "name g \<noteq> None \<Longrightarrow> gpu_id g \<noteq> None \<Longrightarrow>
   probe_gpu g acc = Inl (NameError ''name memory_temperature is not defined'') \<or>
   (\<exists>ms. probe_gpu g acc = Inr ms)"
  by (auto simp: probe_gpu_def Let_def split: option.splits)

lemma probe_gpus_memory_temperature:
  "g \<in> set gs \<Longrightarrow> memory_temperature g = Some v \<Longrightarrow> \<exists>e. probe_gpus gs acc = Inl e"
proof (induction gs arbitrary: acc)
  case Nil
  then show ?case by simp
next
  case (Cons h gs)
  show ?case
  proof (cases "probe_gpu h acc")
    case (Inl e)
    then show ?thesis by simp
  next
    case (Inr ms)
    with probe_gpu_memory_temperature [of h _ acc] Cons.prems have "g \<noteq> h"
      by fastforce
    with Cons.prems have "g \<in> set gs" by simp
    from Cons.IH [OF this Cons.prems(2), of ms] Inr show ?thesis by simp
  qed
qed

lemma probe_gpus_NameError:
  "g \<in> set gs \<Longrightarrow> memory_temperature g = Some v \<Longrightarrow>
   list_all (\<lambda>g. name g \<noteq> None \<and> gpu_id g \<noteq> None) gs \<Longrightarrow>
   probe_gpus gs acc = Inl (NameError ''name memory_temperature is not defined'')"
proof (induction gs arbitrary: acc)
  case Nil
  then show ?case by simp
next
  case (Cons h gs)
  from Cons.prems(3) have h: "name h \<noteq> None" "gpu_id h \<noteq> None"
    and rest: "list_all (\<lambda>g. name g \<noteq> None \<and> gpu_id g \<noteq> None) gs"
    by simp_all
  show ?case
  proof (cases "probe_gpu h acc")
    case (Inl e)
    with probe_gpu_named [OF h, of acc] show ?thesis by simp
  next
    case (Inr ms)
    with probe_gpu_memory_temperature [of h _ acc] Cons.prems have "g \<noteq> h"
      by fastforce
    with Cons.prems have "g \<in> set gs" by simp
    from Cons.IH [OF this Cons.prems(2) rest, of ms] Inr show ?thesis by simp
  qed
qed

lemma probe_gpus_complete:
  "list_all (\<lambda>g. name g \<noteq> None \<and> gpu_id g \<noteq> None \<and> memory_temperature g = None) gs \<Longrightarrow>
   probe_gpus gs acc = Inr (acc @ gpu_metrics gs)"
proof (induction gs arbitrary: acc)
  case Nil
  show ?case by simp
next
  case (Cons g gs)
  then show ?case
    by (cases "temperature g") (auto simp: probe_gpu_def)
qed

lemma scalar_metrics_append:
  "scalar_metrics data =
    (case hashrate data of None \<Rightarrow> [] | Some h \<Rightarrow> [Metric ''hashrate'' (PInt h) ''hashrate'']) @
    (case success data of None \<Rightarrow> [] | Some s \<Rightarrow> [Metric ''success'' (PBool (py_bool s)) ''success'']) @
    (case paused data of None \<Rightarrow> [] | Some p \<Rightarrow> [Metric ''paused'' (PBool (py_bool p)) ''paused'']) @
    (case uptime data of None \<Rightarrow> [] | Some u \<Rightarrow> [Metric ''uptime'' (PInt u) ''uptime''])"
  by (simp add: scalar_metrics_def Let_def split: option.splits)

lemma scalar_metrics_names:
  "m \<in> set (scalar_metrics data) \<Longrightarrow> metric_name m \<in> probed \<and> metric_context m = metric_name m"
  by (auto simp: scalar_metrics_append probed_def Metric_def split: option.splits)

lemma probe_data_names:
  assumes "probe_data data = Inr ms" and "m \<in> set ms"
  shows "metric_name m \<in> probed \<and> metric_context m = metric_name m"
proof -
  from assms(1) obtain gs where gs: "gpus data = Some gs"
    and pd: "probe_gpus gs (scalar_metrics data) = Inr ms"
    by (auto simp: probe_data_def split: option.splits)
  from pd obtain post where post: "probe_gpus gs [] = Inr post"
    and ms: "ms = scalar_metrics data @ post"
    using probe_gpus_acc [of gs "scalar_metrics data"] by (auto split: sum.splits)
  from assms(2) ms have "m \<in> set (scalar_metrics data) \<or> m \<in> set post" by simp
  then show ?thesis
    using scalar_metrics_names [of m data] probe_gpus_contexts [OF post, of m]
    by (auto simp: probed_def)
qed

lemma contexts_Inr:
  assumes "contexts a = Inr ctxs"
  shows "\<exists>t mt tw tc mw mc. ctxs =
          [BooleanContext ''success'' True False False,
           BooleanContext ''paused'' True (paused_warning a) (paused_critical a),
           BelowThresholdContext ''hashrate'' (hashrate_warning a) (hashrate_critical a),
           BelowThresholdContext ''uptime'' (uptime_warning a) (uptime_critical a),
           ScalarContext ''temperature'' tw tc, ScalarContext ''memory_temperature'' mw mc]"
  using assms by (auto simp: contexts_def new_ScalarContext_def split: sum.splits)

lemma contexts_lookup:
  assumes "contexts a = Inr ctxs"
  shows "lookup_context ctxs ''success'' = Some (BooleanContext ''success'' True False False)"
    and "lookup_context ctxs ''paused'' =
           Some (BooleanContext ''paused'' True (paused_warning a) (paused_critical a))"
    and "lookup_context ctxs ''hashrate'' =
           Some (BelowThresholdContext ''hashrate'' (hashrate_warning a) (hashrate_critical a))"
    and "lookup_context ctxs ''uptime'' =
           Some (BelowThresholdContext ''uptime'' (uptime_warning a) (uptime_critical a))"
    and "\<exists>w c. lookup_context ctxs ''temperature'' = Some (ScalarContext ''temperature'' w c)"
  using contexts_Inr [OF assms] by (auto simp: lookup_context_def)

lemma contexts_probed:
  "contexts a = Inr ctxs \<Longrightarrow> n \<in> probed \<Longrightarrow> \<exists>c. lookup_context ctxs n = Some c"
  using contexts_lookup [of a ctxs] by (auto simp: probed_def)

lemma evaluate_metrics_total:
  "list_all (\<lambda>m. lookup_context ctxs (metric_context m) \<noteq> None) ms \<Longrightarrow>
   \<exists>rs. evaluate_metrics ctxs ms = Inr rs \<and> map metric rs = ms"
  by (induction ms) (auto simp: metric_evaluate)

lemma fold_worst:
  "code s \<le> code (fold (\<lambda>r s. worst s (state r)) rs s) \<and>
   (\<forall>r\<in>set rs. code (state r) \<le> code (fold (\<lambda>r s. worst s (state r)) rs s)) \<and>
   (fold (\<lambda>r s. worst s (state r)) rs s = s \<or>
    fold (\<lambda>r s. worst s (state r)) rs s \<in> state ` set rs)"
proof (induction rs arbitrary: s)
  case Nil
  show ?case by simp
next
  case (Cons r rs)
  from Cons.IH [of "worst s (state r)"] show ?case
    by (auto simp: worst_def split: if_splits)
qed

lemma check_state_worst:
  assumes "rs \<noteq> []"
  shows "(\<forall>r\<in>set rs. code (state r) \<le> code (check_state rs)) \<and> check_state rs \<in> state ` set rs"
proof -
  from assms obtain r rs' where rs: "rs = r # rs'" by (cases rs) auto
  from fold_worst [of "state r" rs'] show ?thesis
    by (auto simp: rs check_state_def)
qed

lemma check_state_map:
  "map state rs = map state rs' \<Longrightarrow> check_state rs = check_state rs'"
proof -
  have f: "fold (\<lambda>r s. worst s (state r)) xs s = fold (\<lambda>t s. worst s t) (map state xs) s" for xs s
    by (simp add: fold_map comp_def)
  assume eq: "map state rs = map state rs'"
  show ?thesis
  proof (cases rs)
    case Nil
    with eq show ?thesis by simp
  next
    case (Cons r rs1)
    with eq obtain r' rs1' where rs': "rs' = r' # rs1'" by (cases rs') auto
    with eq Cons have "state r = state r'" "map state rs1 = map state rs1'" by simp_all
    then show ?thesis by (simp add: check_state_def Cons rs' f)
  qed
qed



lemma states_success:
  assumes "lookup_context ctxs ''success'' = Some (BooleanContext n True False False)"
  shows "map_sum id (map state) (evaluate_metrics ctxs (xs @ Metric ''success'' v ''success'' # ys)) =
         map_sum id (map state) (evaluate_metrics ctxs (xs @ Metric ''success'' v' ''success'' # ys))"
proof (induction xs)
  case Nil
  show ?case using assms
    by (simp add: Metric_def Result_def split: sum.splits)
next
  case (Cons x xs)
  show ?case
  proof (cases "lookup_context ctxs (metric_context x)")
    case None
    then show ?thesis by simp
  next
    case (Some c)
    with Cons.IH show ?thesis
      by (cases "evaluate_metrics ctxs (xs @ Metric ''success'' v ''success'' # ys)";
          cases "evaluate_metrics ctxs (xs @ Metric ''success'' v' ''success'' # ys)") simp_all
  qed
qed

lemma probe_data_success:
  "\<exists>xs ys. \<forall>s. probe_data (data\<lparr>success := Some s\<rparr>) =
     (case gpus data of None \<Rightarrow> Inl (TypeError ''NoneType object is not iterable'')
      | Some gs \<Rightarrow> (case probe_gpus gs [] of Inl e \<Rightarrow> Inl e
          | Inr post \<Rightarrow> Inr (xs @ Metric ''success'' (PBool (py_bool s)) ''success'' # ys @ post)))"
proof -
  let ?xs = "case hashrate data of None \<Rightarrow> [] | Some h \<Rightarrow> [Metric ''hashrate'' (PInt h) ''hashrate'']"
  let ?ys = "(case paused data of None \<Rightarrow> [] | Some p \<Rightarrow> [Metric ''paused'' (PBool (py_bool p)) ''paused'']) @
    (case uptime data of None \<Rightarrow> [] | Some u \<Rightarrow> [Metric ''uptime'' (PInt u) ''uptime''])"
  have "probe_data (data\<lparr>success := Some s\<rparr>) =
     (case gpus data of None \<Rightarrow> Inl (TypeError ''NoneType object is not iterable'')
      | Some gs \<Rightarrow> (case probe_gpus gs [] of Inl e \<Rightarrow> Inl e
          | Inr post \<Rightarrow> Inr (?xs @ Metric ''success'' (PBool (py_bool s)) ''success'' # ?ys @ post)))" for s
  proof (cases "gpus data")
    case None
    then show ?thesis by (simp add: probe_data_def)
  next
    case (Some gs)
    then show ?thesis
      using probe_gpus_acc [of gs "scalar_metrics (data\<lparr>success := Some s\<rparr>)"]
      by (simp add: probe_data_def scalar_metrics_append split: sum.splits)
  qed
  then show ?thesis by blast
qed

subsection \<open>The below-threshold evaluator\<close>

text \<open>
  C1. For every metric of the below-threshold evaluator the result should equal the
  reference definition, in which a bound counts as soon as it is set. The evaluator tests
  the bound for truth (\<^verbatim>\<open>self.critical and ...\<close>), so a bound of 0 is set and yet never
  triggers: with \<^verbatim>\<open>--hashrate-critical 0\<close> a hashrate of 0 is reported as ok, where the
  reference definition says critical.
\<close>

theorem below_threshold_zero_bound:
  "state (evaluate (BelowThresholdContext ''hashrate'' None (Some 0))
            (Metric ''hashrate'' (PInt 0) ''hashrate'')) = Ok \<and>
   below_reference None (Some 0) 0 = Critical \<and>
   main (default_args\<lparr>hashrate_critical := Some 0\<rparr>) (serving (no_metrics\<lparr>hashrate := Some 0\<rparr>)) =
     Reported Ok [Result Ok None (Metric ''hashrate'' (PInt 0) ''hashrate'')]"
  by (simp add: Result_def Metric_def below_reference_def set_and_le_def main_def
      default_args_def contexts_def new_ScalarContext_def Range_def check_main_def probe_def
      serving_def no_metrics_def probe_data_def scalar_metrics_def lookup_context_def
      check_state_def)

text \<open>
  For bounds other than 0 the evaluator and the reference definition agree on every value.
\<close>

theorem below_threshold_nonzero:
  assumes "w \<noteq> Some 0" and "c \<noteq> Some 0"
  shows "state (evaluate (BelowThresholdContext n w c) m) =
           below_reference w c (py_int (metric_value m))"
  using assms
  by (cases w; cases c) (auto simp: Result_def below_reference_def set_and_le_def)

theorem below_threshold_nonzero_witness:
  "Some (600::int) \<noteq> Some 0 \<and> Some (400::int) \<noteq> Some 0 \<and>
   state (evaluate (BelowThresholdContext ''hashrate'' (Some 600) (Some 400))
            (Metric ''hashrate'' (PInt 500) ''hashrate'')) = Warn \<and>
   below_reference (Some 600) (Some 400) 500 = Warn"
  using below_threshold_nonzero [of "Some 600" "Some 400" "''hashrate''" "Metric ''hashrate'' (PInt 500) ''hashrate''"]
  by (simp add: below_reference_def set_and_le_def Metric_def)

subsection \<open>The boolean evaluator\<close>

text \<open>
  C6. For a boolean metric, a value that differs from the expected one yields the
  configured severity (critical if the critical flag is set, else warning if the warning
  flag is set, else ok), and a value that matches yields ok.
\<close>

theorem boolean_context_mismatch:
  "state (evaluate (BooleanContext n e w c) (Metric nm (PBool b) cx)) =
     (if b \<noteq> e then (if c then Critical else if w then Warn else Ok) else Ok)"
  by (simp add: Result_def Metric_def)

text \<open>
  C2. With \<^verbatim>\<open>--paused-warning\<close> a paused miner should give a warning and the exit code 1.
  \<^verbatim>\<open>main\<close> builds the context of \<^verbatim>\<open>paused\<close> with \<^verbatim>\<open>expected=True\<close>, so a paused miner
  matches the expectation: the result is ok and the exit code 0, and it is the miner that
  is not paused which gets the warning.
\<close>

theorem paused_warning_not_raised:
  "main (default_args\<lparr>paused_warning := True\<rparr>) (serving (no_metrics\<lparr>paused := Some (JBool True)\<rparr>)) =
     Reported Ok [Result Ok None (Metric ''paused'' (PBool True) ''paused'')] \<and>
   exitcode (main (default_args\<lparr>paused_warning := True\<rparr>)
      (serving (no_metrics\<lparr>paused := Some (JBool True)\<rparr>))) = 0 \<and>
   exitcode (main (default_args\<lparr>paused_warning := True\<rparr>)
      (serving (no_metrics\<lparr>paused := Some (JBool False)\<rparr>))) = 1"
  by (simp add: Result_def Metric_def main_def
      default_args_def contexts_def new_ScalarContext_def Range_def check_main_def probe_def
      serving_def no_metrics_def probe_data_def scalar_metrics_def lookup_context_def
      check_state_def worst_def)

text \<open>
  C10. The context of \<^verbatim>\<open>success\<close> is built without a warning or a critical flag. A
  \<^verbatim>\<open>success\<close> that is false gives a result that is ok, with the hint
  \<^verbatim>\<open>success is not True\<close>, and whatever the value of \<^verbatim>\<open>success\<close> in a summary, the exit
  code of the check is the same.
\<close>

theorem success_never_alerts:
  assumes "contexts a = Inr ctxs"
  shows "lookup_context ctxs ''success'' = Some (BooleanContext ''success'' True False False) \<and>
         evaluate (BooleanContext ''success'' True False False)
             (Metric ''success'' (PBool False) ''success'') =
           Result Ok (Some ''success is not True'') (Metric ''success'' (PBool False) ''success'') \<and>
         exitcode (main a (serving (data\<lparr>success := Some s\<rparr>))) =
           exitcode (main a (serving (data\<lparr>success := Some s'\<rparr>)))"
proof -
  have l: "lookup_context ctxs ''success'' = Some (BooleanContext ''success'' True False False)"
    using contexts_lookup(1) [OF assms] .
  have e: "evaluate (BooleanContext ''success'' True False False)
             (Metric ''success'' (PBool False) ''success'') =
           Result Ok (Some ''success is not True'') (Metric ''success'' (PBool False) ''success'')"
    by (simp add: Metric_def str_bool_def)
  have p: "probe (serving d) u t = probe_data d" for d u t
    by (simp add: probe_def serving_def)
  from probe_data_success [of data] obtain xs ys where
    pd: "\<And>s. probe_data (data\<lparr>success := Some s\<rparr>) =
     (case gpus data of None \<Rightarrow> Inl (TypeError ''NoneType object is not iterable'')
      | Some gs \<Rightarrow> (case probe_gpus gs [] of Inl e \<Rightarrow> Inl e
          | Inr post \<Rightarrow> Inr (xs @ Metric ''success'' (PBool (py_bool s)) ''success'' # ys @ post)))"
    by blast
  have x: "exitcode (main a (serving (data\<lparr>success := Some s\<rparr>))) =
           exitcode (main a (serving (data\<lparr>success := Some s'\<rparr>)))"
  proof (cases "show_version a")
    case True
    then show ?thesis by (simp add: main_def)
  next
    case False
    show ?thesis
    proof (cases "gpus data")
      case None
      then show ?thesis using False assms by (simp add: main_def check_main_def p pd)
    next
      case (Some gs)
      show ?thesis
      proof (cases "probe_gpus gs []")
        case (Inl err)
        then show ?thesis using False assms Some by (simp add: main_def check_main_def p pd)
      next
        case (Inr post)
        let ?m = "\<lambda>s. xs @ Metric ''success'' (PBool (py_bool s)) ''success'' # ys @ post"
        have st: "map_sum id (map state) (evaluate_metrics ctxs (?m s)) =
                  map_sum id (map state) (evaluate_metrics ctxs (?m s'))"
          using states_success [OF l] .
        have m: "main a (serving (data\<lparr>success := Some z\<rparr>)) =
          (case evaluate_metrics ctxs (?m z) of
             Inl err \<Rightarrow> Failed (''Failed to execute check: '' @ str_error err) (code Unknown)
           | Inr rs \<Rightarrow> Reported (check_state rs) rs)" for z
          using False assms Some Inr by (simp add: main_def check_main_def p pd split: sum.splits)
        show ?thesis
        proof (cases "evaluate_metrics ctxs (?m s)")
          case (Inl err)
          with st obtain err' where "evaluate_metrics ctxs (?m s') = Inl err'"
            by (cases "evaluate_metrics ctxs (?m s')") auto
          with Inl show ?thesis by (simp add: m)
        next
          case (Inr rs)
          with st obtain rs' where rs': "evaluate_metrics ctxs (?m s') = Inr rs'"
            and eq: "map state rs = map state rs'"
            by (cases "evaluate_metrics ctxs (?m s')") auto
          from eq have "check_state rs = check_state rs'" by (rule check_state_map)
          with Inr rs' show ?thesis by (simp add: m)
        qed
      qed
    qed
  qed
  from l e x show ?thesis by simp
qed

theorem success_never_alerts_witness:
  "contexts default_args =
     Inr [BooleanContext ''success'' True False False,
          BooleanContext ''paused'' True False False,
          BelowThresholdContext ''hashrate'' None None,
          BelowThresholdContext ''uptime'' None None,
          ScalarContext ''temperature'' \<lparr>range_start = 0, range_end = Some 70\<rparr>
            \<lparr>range_start = 0, range_end = Some 90\<rparr>,
          ScalarContext ''memory_temperature'' \<lparr>range_start = 0, range_end = Some 90\<rparr>
            \<lparr>range_start = 0, range_end = Some 110\<rparr>] \<and>
   exitcode (main default_args (serving (no_metrics\<lparr>success := Some (JInt 0)\<rparr>))) = 0 \<and>
   exitcode (main default_args (serving (no_metrics\<lparr>success := Some (JInt 1)\<rparr>))) = 0"
proof -
  have c: "contexts default_args =
     Inr [BooleanContext ''success'' True False False,
          BooleanContext ''paused'' True False False,
          BelowThresholdContext ''hashrate'' None None,
          BelowThresholdContext ''uptime'' None None,
          ScalarContext ''temperature'' \<lparr>range_start = 0, range_end = Some 70\<rparr>
            \<lparr>range_start = 0, range_end = Some 90\<rparr>,
          ScalarContext ''memory_temperature'' \<lparr>range_start = 0, range_end = Some 90\<rparr>
            \<lparr>range_start = 0, range_end = Some 110\<rparr>]"
    by (simp add: default_args_def contexts_def new_ScalarContext_def Range_def)
  have one: "exitcode (main default_args (serving (no_metrics\<lparr>success := Some (JInt 1)\<rparr>))) = 0"
    by (simp add: run_defs)
  from success_never_alerts [where data = no_metrics and s = "JInt 0" and s' = "JInt 1", OF c]
    one c show ?thesis
    by simp
qed

subsection \<open>The probe\<close>

text \<open>
  C3. A summary in which an optional key is missing should give the metrics of the other
  keys and no error. When the key that is missing is \<^verbatim>\<open>gpus\<close>, the loop runs over
  \<^verbatim>\<open>None\<close> and the probe raises a \<^verbatim>\<open>TypeError\<close>; the check ends as a failure with exit
  code 3.
\<close>

theorem probe_without_gpus_raises:
  "probe_data (no_metrics\<lparr>hashrate := Some 500, gpus := None\<rparr>) =
     Inl (TypeError ''NoneType object is not iterable'') \<and>
   main default_args (serving (no_metrics\<lparr>hashrate := Some 500, gpus := None\<rparr>)) =
     Failed ''Failed to execute check: NoneType object is not iterable'' 3"
  by (simp add: main_def
      default_args_def contexts_def new_ScalarContext_def Range_def check_main_def probe_def
      serving_def no_metrics_def probe_data_def)

text \<open>
  With the list of GPUs present, every record named and identified, and no record
  carrying a \<^verbatim>\<open>memory_temperature\<close>, the probe returns the metrics of the keys that are
  there, in the order of the script.
\<close>

theorem probe_without_memory_temperature:
  assumes "gpus data = Some gs"
    and "list_all (\<lambda>g. name g \<noteq> None \<and> gpu_id g \<noteq> None \<and> memory_temperature g = None) gs"
  shows "probe_data data = Inr (scalar_metrics data @ gpu_metrics gs)"
  using assms by (simp add: probe_data_def probe_gpus_complete)

theorem probe_without_memory_temperature_witness:
  "gpus (no_metrics\<lparr>uptime := Some 10, gpus := Some [one_gpu 60]\<rparr>) = Some [one_gpu 60] \<and>
   list_all (\<lambda>g. name g \<noteq> None \<and> gpu_id g \<noteq> None \<and> memory_temperature g = None) [one_gpu 60] \<and>
   probe_data (no_metrics\<lparr>uptime := Some 10, gpus := Some [one_gpu 60]\<rparr>) =
     Inr [Metric ''uptime'' (PInt 10) ''uptime'', Metric ''temperature'' (PInt 60) ''temperature'']"
  using probe_without_memory_temperature
    [of "no_metrics\<lparr>uptime := Some 10, gpus := Some [one_gpu 60]\<rparr>" "[one_gpu 60]"]
  by (simp add: no_metrics_def one_gpu_def scalar_metrics_def)

text \<open>
  C4. When a record of \<^verbatim>\<open>gpus\<close> has a \<^verbatim>\<open>memory_temperature\<close>, the probe raises an error
  and returns no metrics; when every record has its name and its id, that error is the
  \<^verbatim>\<open>NameError\<close> of the variable \<^verbatim>\<open>memory_temperature\<close>, which is never assigned.
\<close>

theorem probe_memory_temperature_raises:
  assumes "net (u @ ''/summary'') t = Inr r"
    and "raise_for_status r = None"
    and "json_body r = Inr data"
    and "gpus data = Some gs"
    and "g \<in> set gs"
    and "memory_temperature g = Some v"
  shows "(\<exists>e. probe net u t = Inl e) \<and>
         (list_all (\<lambda>g. name g \<noteq> None \<and> gpu_id g \<noteq> None) gs \<longrightarrow>
            probe net u t = Inl (NameError ''name memory_temperature is not defined''))"
proof -
  from assms(1-3) have p: "probe net u t = probe_data data"
    by (simp add: probe_def)
  with assms(4) have "probe net u t = probe_gpus gs (scalar_metrics data)"
    by (simp add: probe_data_def)
  then show ?thesis
    using probe_gpus_memory_temperature [OF assms(5,6), of "scalar_metrics data"]
      probe_gpus_NameError [OF assms(5,6), of "scalar_metrics data"]
    by auto
qed

theorem probe_memory_temperature_raises_witness:
  "serving (no_metrics\<lparr>gpus := Some [memory_gpu]\<rparr>) (''http://127.0.0.1:4067'' @ ''/summary'') 3 =
     Inr \<lparr>raise_for_status = None, json_body = Inr (no_metrics\<lparr>gpus := Some [memory_gpu]\<rparr>)\<rparr> \<and>
   gpus (no_metrics\<lparr>gpus := Some [memory_gpu]\<rparr>) = Some [memory_gpu] \<and>
   memory_gpu \<in> set [memory_gpu] \<and>
   memory_temperature memory_gpu = Some 80 \<and>
   list_all (\<lambda>g. name g \<noteq> None \<and> gpu_id g \<noteq> None) [memory_gpu] \<and>
   probe (serving (no_metrics\<lparr>gpus := Some [memory_gpu]\<rparr>)) ''http://127.0.0.1:4067'' 3 =
     Inl (NameError ''name memory_temperature is not defined'')"
  using probe_memory_temperature_raises
    [of "serving (no_metrics\<lparr>gpus := Some [memory_gpu]\<rparr>)" "''http://127.0.0.1:4067''" 3
        "\<lparr>raise_for_status = None, json_body = Inr (no_metrics\<lparr>gpus := Some [memory_gpu]\<rparr>)\<rparr>"
        "no_metrics\<lparr>gpus := Some [memory_gpu]\<rparr>" "[memory_gpu]" memory_gpu 80]
  by (simp add: serving_def no_metrics_def memory_gpu_def)

subsection \<open>The above-threshold evaluator\<close>

text \<open>
  C5, as amended. For a temperature \<open>v\<close> and positive bounds \<open>w\<close> and \<open>c\<close>, the
  context that \<^verbatim>\<open>main\<close> builds gives critical if \<open>v\<close> is greater than \<open>c\<close> (or negative),
  else warning if \<open>v\<close> is greater than \<open>w\<close>, else ok; a temperature of 95 with the bounds
  70 and 90 gives critical and the exit code 2.
\<close>

theorem scalar_context_above:
  assumes "0 < w" and "0 < c"
  shows "(\<exists>ctx. new_ScalarContext n w c = Inr ctx \<and>
            state (evaluate ctx (Metric nm (PInt v) n)) =
              (if c < v \<or> v < 0 then Critical else if w < v then Warn else Ok)) \<and>
         exitcode (main default_args (serving (no_metrics\<lparr>gpus := Some [one_gpu 95]\<rparr>))) = 2"
proof -
  have "exitcode (main default_args (serving (no_metrics\<lparr>gpus := Some [one_gpu 95]\<rparr>))) = 2"
    by (simp add: run_defs)
  moreover have "\<exists>ctx. new_ScalarContext n w c = Inr ctx \<and>
            state (evaluate ctx (Metric nm (PInt v) n)) =
              (if c < v \<or> v < 0 then Critical else if w < v then Warn else Ok)"
    using assms by (auto simp: new_ScalarContext_def Range_def match_def Result_def Metric_def)
  ultimately show ?thesis by simp
qed

theorem scalar_context_above_witness:
  "(0::int) < 70 \<and> (0::int) < 90 \<and>
   new_ScalarContext ''temperature'' 70 90 =
     Inr (ScalarContext ''temperature'' \<lparr>range_start = 0, range_end = Some 70\<rparr>
            \<lparr>range_start = 0, range_end = Some 90\<rparr>) \<and>
   state (evaluate (ScalarContext ''temperature'' \<lparr>range_start = 0, range_end = Some 70\<rparr>
            \<lparr>range_start = 0, range_end = Some 90\<rparr>)
          (Metric ''temperature'' (PInt 95) ''temperature'')) = Critical \<and>
   exitcode (main default_args (serving (no_metrics\<lparr>gpus := Some [one_gpu 95]\<rparr>))) = 2"
  using scalar_context_above [of 70 90 "''temperature''" "''temperature''" 95]
  by (simp add: new_ScalarContext_def Range_def)

text \<open>
  C5, as stated, fails where the value equals the bound: a temperature of 90 with the
  bounds 70 and 90 is inside the critical range, and the check gives a warning and the
  exit code 1.
\<close>

theorem scalar_context_at_bound:
  "(90::int) \<ge> 90 \<and>
   state (evaluate (ScalarContext ''temperature'' \<lparr>range_start = 0, range_end = Some 70\<rparr>
            \<lparr>range_start = 0, range_end = Some 90\<rparr>)
          (Metric ''temperature'' (PInt 90) ''temperature'')) = Warn \<and>
   new_ScalarContext ''temperature'' 70 90 =
     Inr (ScalarContext ''temperature'' \<lparr>range_start = 0, range_end = Some 70\<rparr>
            \<lparr>range_start = 0, range_end = Some 90\<rparr>) \<and>
   exitcode (main default_args (serving (no_metrics\<lparr>gpus := Some [one_gpu 90]\<rparr>))) = 1"
  by (simp add: run_defs)

subsection \<open>The check as a whole\<close>

text \<open>
  C7. When the probe returns metrics, every one of them is evaluated, the state of the
  check is the worst state among the results (no result has a greater code, and one
  result has that state), and the exit code is the Nagios code of that state.
\<close>

theorem overall_state_is_worst:
  assumes "\<not> show_version a"
    and "contexts a = Inr ctxs"
    and "probe net (url a) (timeout a) = Inr ms"
    and "ms \<noteq> []"
  shows "\<exists>rs. main a net = Reported (check_state rs) rs \<and> map metric rs = ms \<and>
           (\<forall>r\<in>set rs. code (state r) \<le> code (check_state rs)) \<and>
           (\<exists>r\<in>set rs. state r = check_state rs) \<and>
           exitcode (main a net) = code (check_state rs)"
proof -
  from assms(3) have "\<exists>data. probe_data data = Inr ms"
    by (auto simp: probe_def split: sum.splits option.splits)
  then obtain data where "probe_data data = Inr ms" ..
  then have "\<forall>m\<in>set ms. metric_context m \<in> probed"
    using probe_data_names by fastforce
  then have "list_all (\<lambda>m. lookup_context ctxs (metric_context m) \<noteq> None) ms"
    using contexts_probed [OF assms(2)] by (fastforce simp: list_all_iff)
  from evaluate_metrics_total [OF this] obtain rs
    where rs: "evaluate_metrics ctxs ms = Inr rs" and m: "map metric rs = ms" by blast
  from m assms(4) have "rs \<noteq> []" by auto
  from check_state_worst [OF this]
  have w: "(\<forall>r\<in>set rs. code (state r) \<le> code (check_state rs))" "\<exists>r\<in>set rs. state r = check_state rs"
    by auto
  have "main a net = Reported (check_state rs) rs"
    using assms(1-3) rs by (simp add: main_def check_main_def)
  with w m show ?thesis by auto
qed

theorem overall_state_is_worst_witness:
  "\<not> show_version (default_args\<lparr>hashrate_critical := Some 600\<rparr>) \<and>
   contexts (default_args\<lparr>hashrate_critical := Some 600\<rparr>) =
     Inr [BooleanContext ''success'' True False False,
          BooleanContext ''paused'' True False False,
          BelowThresholdContext ''hashrate'' None (Some 600),
          BelowThresholdContext ''uptime'' None None,
          ScalarContext ''temperature'' \<lparr>range_start = 0, range_end = Some 70\<rparr>
            \<lparr>range_start = 0, range_end = Some 90\<rparr>,
          ScalarContext ''memory_temperature'' \<lparr>range_start = 0, range_end = Some 90\<rparr>
            \<lparr>range_start = 0, range_end = Some 110\<rparr>] \<and>
   probe (serving (no_metrics\<lparr>hashrate := Some 500, gpus := Some [one_gpu 75]\<rparr>))
       (url (default_args\<lparr>hashrate_critical := Some 600\<rparr>))
       (timeout (default_args\<lparr>hashrate_critical := Some 600\<rparr>)) =
     Inr [Metric ''hashrate'' (PInt 500) ''hashrate'', Metric ''temperature'' (PInt 75) ''temperature''] \<and>
   (\<exists>rs. main (default_args\<lparr>hashrate_critical := Some 600\<rparr>)
            (serving (no_metrics\<lparr>hashrate := Some 500, gpus := Some [one_gpu 75]\<rparr>)) =
          Reported Critical rs \<and> map state rs = [Critical, Warn]) \<and>
   exitcode (main (default_args\<lparr>hashrate_critical := Some 600\<rparr>)
            (serving (no_metrics\<lparr>hashrate := Some 500, gpus := Some [one_gpu 75]\<rparr>))) = 2"
proof -
  let ?a = "default_args\<lparr>hashrate_critical := Some 600\<rparr>"
  let ?net = "serving (no_metrics\<lparr>hashrate := Some 500, gpus := Some [one_gpu 75]\<rparr>)"
  let ?ctxs = "[BooleanContext ''success'' True False False,
          BooleanContext ''paused'' True False False,
          BelowThresholdContext ''hashrate'' None (Some 600),
          BelowThresholdContext ''uptime'' None None,
          ScalarContext ''temperature'' \<lparr>range_start = 0, range_end = Some 70\<rparr>
            \<lparr>range_start = 0, range_end = Some 90\<rparr>,
          ScalarContext ''memory_temperature'' \<lparr>range_start = 0, range_end = Some 90\<rparr>
            \<lparr>range_start = 0, range_end = Some 110\<rparr>]"
  let ?ms = "[Metric ''hashrate'' (PInt 500) ''hashrate'', Metric ''temperature'' (PInt 75) ''temperature'']"
  have h1: "\<not> show_version ?a" by (simp add: default_args_def)
  have h2: "contexts ?a = Inr ?ctxs"
    by (simp add: default_args_def contexts_def new_ScalarContext_def Range_def)
  have h3: "probe ?net (url ?a) (timeout ?a) = Inr ?ms"
    by (simp add: probe_def serving_def no_metrics_def probe_data_def scalar_metrics_def
        one_gpu_def probe_gpu_def)
  have h4: "?ms \<noteq> []" by simp
  from overall_state_is_worst [OF h1 h2 h3 h4] obtain rs where
    m: "main ?a ?net = Reported (check_state rs) rs" and x: "exitcode (main ?a ?net) = code (check_state rs)"
    by blast
  have e: "main ?a ?net = Reported Critical
     [Result Critical (Some ''500<=600'') (Metric ''hashrate'' (PInt 500) ''hashrate''),
      Result Warn (Some ''outside range 0:70'') (Metric ''temperature'' (PInt 75) ''temperature'')]"
    using h1 h2 h3
    by (simp add: main_def check_main_def lookup_context_def check_state_def worst_def
        Result_def Metric_def match_def violation_def str_int_def)
  from m e have "check_state rs = Critical" "map state rs = [Critical, Warn]"
    by (auto simp: Result_def)
  with m x h1 h2 h3 show ?thesis by simp
qed




end
